theory Spec2Isabelle
  imports Complex_Main
begin

section \<open>Strings as the Python code uses them\<close>

text \<open>
  A Python \<open>str\<close> is modelled as a \<open>string\<close> (a list of 8-bit characters, read as the code
  points U+0000 to U+00FF). \<open>len\<close> is \<open>length\<close>, \<open>+\<close> is \<open>@\<close>.
\<close>

text \<open>\<open>str.lower()\<close> on this range: A-Z and the Latin-1 capitals (U+00C0 to U+00DE without the
  multiplication sign U+00D7) move up by 32; every other character is left alone.\<close>

definition lower_char :: "char \<Rightarrow> char" where
  "lower_char c =
     (let n = (of_char c :: nat) in
      if (65 \<le> n \<and> n \<le> 90) \<or> (192 \<le> n \<and> n \<le> 222 \<and> n \<noteq> 215)
      then char_of (n + 32) else c)"

definition lower :: "string \<Rightarrow> string" where
  "lower s = map lower_char s"

text \<open>\<open>a in b\<close> for two strings: \<open>a\<close> occurs as a contiguous substring of \<open>b\<close>.\<close>

fun starts_with :: "string \<Rightarrow> string \<Rightarrow> bool" where
  "starts_with [] b = True"
| "starts_with (x # a) [] = False"
| "starts_with (x # a) (y # b) = (x = y \<and> starts_with a b)"

fun py_in :: "string \<Rightarrow> string \<Rightarrow> bool" where
  "py_in a [] = (a = [])"
| "py_in a (y # b) = (starts_with a (y # b) \<or> py_in a b)"

text \<open>\<open>str(i)\<close> for a non-negative integer: its decimal digits.\<close>

definition digit_char :: "nat \<Rightarrow> char" where
  "digit_char d = ''0123456789'' ! (d mod 10)"

fun str_nat :: "nat \<Rightarrow> string" where
  "str_nat n = (if n < 10 then [digit_char n] else str_nat (n div 10) @ [digit_char (n mod 10)])"

declare str_nat.simps [simp del]

text \<open>\<open>p.rfind(c)\<close>: the index of the last occurrence of \<open>c\<close>, or \<open>-1\<close>.\<close>

fun rfind_from :: "char \<Rightarrow> string \<Rightarrow> int \<Rightarrow> int \<Rightarrow> int" where
  "rfind_from c [] i found = found"
| "rfind_from c (x # xs) i found = rfind_from c xs (i + 1) (if x = c then i else found)"

definition rfind :: "char \<Rightarrow> string \<Rightarrow> int" where
  "rfind c p = rfind_from c p 0 (- 1)"

text \<open>
  \<open>os.path.splitext(p)[1]\<close> (POSIX flavour of the standard library): the text from the last
  dot of \<open>p\<close> on, provided that dot lies after the last \<open>/\<close> and is preceded, inside the last
  path component, by at least one character that is not a dot; otherwise the empty string.
\<close>

definition splitext_ext :: "string \<Rightarrow> string" where
  "splitext_ext p =
     (let sepIndex = rfind (CHR ''/'') p;
          dotIndex = rfind (CHR ''.'') p
      in if dotIndex > sepIndex \<and>
            list_ex (\<lambda>i. p ! i \<noteq> CHR ''.'') [nat (sepIndex + 1) ..< nat dotIndex]
         then drop (nat dotIndex) p else [])"


section \<open>Symbol extractor (\<open>symbol_extractor.py\<close>)\<close>

text \<open>A symbols dictionary \<open>Dict[str, List[str]]\<close>, in insertion order.\<close>

type_synonym symbols = "(string \<times> string list) list"

text \<open>\<open>SymbolExtractor.get_language_from_extension\<close>.\<close>

definition extractor_extension_map :: "(string \<times> string) list" where
  "extractor_extension_map =
     [(''.py'', ''python''), (''.js'', ''javascript''), (''.jsx'', ''javascript''),
      (''.ts'', ''typescript''), (''.tsx'', ''typescript''), (''.java'', ''java''),
      (''.cpp'', ''cpp''), (''.cc'', ''cpp''), (''.cxx'', ''cpp''), (''.c'', ''c''),
      (''.h'', ''c''), (''.hpp'', ''cpp''), (''.cs'', ''csharp''), (''.go'', ''go''),
      (''.rs'', ''rust''), (''.rb'', ''ruby''), (''.php'', ''php''), (''.swift'', ''swift''),
      (''.kt'', ''kotlin'')]"

definition extractor_language :: "string \<Rightarrow> string option" where
  "extractor_language file_path = map_of extractor_extension_map (lower (splitext_ext file_path))"

text \<open>
  The regular expressions of \<open>_fallback_extraction\<close>, by name. Their texts in the source:
  \<^item> \<open>PY_IMPORT\<close>: \<^verbatim>\<open>^import\s+[\w\.]+(?:\s+as\s+\w+)?\<close>
  \<^item> \<open>PY_FROM_IMPORT\<close>: \<^verbatim>\<open>^from\s+[\w\.]+\s+import\s+.+\<close>
  \<^item> \<open>PY_DEF\<close>: \<^verbatim>\<open>^def\s+(\w+)\s*\(\<close>
  \<^item> \<open>PY_CLASS\<close>: \<^verbatim>\<open>^class\s+(\w+)(?:\s*\(.*?\))?:\<close>
  \<^item> \<open>JS_IMPORT_FROM\<close>: \<^verbatim>\<open>import\s+.*?from\s+['"][^'"]+['"]\<close>
  \<^item> \<open>JS_REQUIRE\<close>: \<^verbatim>\<open>const\s+.*?=\s+require\(['"][^'"]+['"]\)\<close>
  \<^item> \<open>JS_FUNCTION\<close>: \<^verbatim>\<open>function\s+(\w+)\s*\(\<close>
  \<^item> \<open>JS_ASSIGNED_FUNCTION\<close>: \<^verbatim>\<open>(\w+)\s*=\s*(?:async\s+)?(?:function|\([^)]*\)\s*=>)\<close>
  \<^item> \<open>JS_CLASS\<close>: \<^verbatim>\<open>class\s+(\w+)(?:\s+extends\s+\w+)?\s*\{\<close>

  Each has at most one capturing group, so \<open>re.findall\<close> returns a list of strings.
\<close>

datatype pattern =
    PY_IMPORT | PY_FROM_IMPORT | PY_DEF | PY_CLASS
  | JS_IMPORT_FROM | JS_REQUIRE | JS_FUNCTION | JS_ASSIGNED_FUNCTION | JS_CLASS

definition patterns :: "(string \<times> (string \<times> pattern list) list) list" where
  "patterns =
     [(''python'',
         [(''imports'', [PY_IMPORT, PY_FROM_IMPORT]),
          (''functions'', [PY_DEF]),
          (''classes'', [PY_CLASS])]),
      (''javascript'',
         [(''imports'', [JS_IMPORT_FROM, JS_REQUIRE]),
          (''functions'', [JS_FUNCTION, JS_ASSIGNED_FUNCTION]),
          (''classes'', [JS_CLASS])])]"

text \<open>
  What the extractor takes from outside the repository: whether the tree-sitter import
  succeeded, the languages a parser was built for (the keys of \<open>self.parsers\<close>), the body of
  the \<open>try\<close> block of \<open>extract_symbols\<close> (parse, then walk the tree; \<open>Inl\<close> is an exception
  raised there), and \<open>re.findall(pattern, code, re.MULTILINE)\<close>.
\<close>

record extractor_env =
  TREE_SITTER_AVAILABLE :: bool
  parsers :: "string list"
  tree_sitter_extract :: "string \<Rightarrow> string \<Rightarrow> string + symbols"
  re_findall :: "pattern \<Rightarrow> string \<Rightarrow> string list"

text \<open>\<open>symbols[symbol_type].extend(matches)\<close>; a missing key is a \<open>KeyError\<close>.\<close>

fun dict_extend :: "symbols \<Rightarrow> string \<Rightarrow> string list \<Rightarrow> string + symbols" where
  "dict_extend [] key xs = Inl (''KeyError: '' @ key)"
| "dict_extend ((k, v) # rest) key xs =
     (if k = key then Inr ((k, v @ xs) # rest)
      else (case dict_extend rest key xs of
              Inl e \<Rightarrow> Inl e
            | Inr rest' \<Rightarrow> Inr ((k, v) # rest')))"

text \<open>The inner loop \<open>for pattern in pattern_list\<close>.\<close>

fun fallback_patterns ::
  "extractor_env \<Rightarrow> string \<Rightarrow> string \<Rightarrow> pattern list \<Rightarrow> symbols \<Rightarrow> string + symbols" where
  "fallback_patterns env code symbol_type [] syms = Inr syms"
| "fallback_patterns env code symbol_type (p # ps) syms =
     (case dict_extend syms symbol_type (re_findall env p code) of
        Inl e \<Rightarrow> Inl e
      | Inr syms' \<Rightarrow> fallback_patterns env code symbol_type ps syms')"

text \<open>The outer loop \<open>for symbol_type, pattern_list in patterns[language].items()\<close>.\<close>

fun fallback_types ::
  "extractor_env \<Rightarrow> string \<Rightarrow> (string \<times> pattern list) list \<Rightarrow> symbols \<Rightarrow> string + symbols" where
  "fallback_types env code [] syms = Inr syms"
| "fallback_types env code ((symbol_type, pattern_list) # rest) syms =
     (case fallback_patterns env code symbol_type pattern_list syms of
        Inl e \<Rightarrow> Inl e
      | Inr syms' \<Rightarrow> fallback_types env code rest syms')"

definition empty_fallback_symbols :: symbols where
  "empty_fallback_symbols = [(''imports'', []), (''functions'', []), (''classes'', [])]"

definition fallback_extraction :: "extractor_env \<Rightarrow> string \<Rightarrow> string \<Rightarrow> string + symbols" where
  "fallback_extraction env code language =
     (case map_of patterns language of
        None \<Rightarrow> Inr empty_fallback_symbols
      | Some table \<Rightarrow> fallback_types env code table empty_fallback_symbols)"

text \<open>\<open>SymbolExtractor.extract_symbols\<close>: the guard, the \<open>try\<close> block and its handler. This
  is the body of the method, for a module that has been loaded; whether it loads is
  \<open>load_symbol_extractor\<close> below.\<close>

definition extract_symbols :: "extractor_env \<Rightarrow> string \<Rightarrow> string \<Rightarrow> string + symbols" where
  "extract_symbols env code language =
     (if \<not> TREE_SITTER_AVAILABLE env \<or> language \<notin> set (parsers env)
      then fallback_extraction env code language
      else (case tree_sitter_extract env language code of
              Inr syms \<Rightarrow> Inr syms
            | Inl e \<Rightarrow> fallback_extraction env code language))"

definition extract_file_symbols :: "extractor_env \<Rightarrow> string \<Rightarrow> string \<Rightarrow> string + symbols" where
  "extract_file_symbols env file_path content_text =
     (case extractor_language file_path of
        None \<Rightarrow> Inr [(''error'', [''Unsupported file type''])]
      | Some language \<Rightarrow> extract_symbols env content_text language)"


text \<open>
  Loading the module. The guarded import at the top (\<open>try: import tree_sitter_python ...; from
  tree_sitter import Language as TSLanguage, Parser, Node\<close>) sets \<open>TREE_SITTER_AVAILABLE\<close> and,
  when it fails, leaves \<open>Node\<close> unbound. The class body then defines
  \<open>_extract_python_symbols(self, root_node: Node)\<close> and the other extractors: the annotation
  \<open>Node\<close> is evaluated at that point unless the interpreter defers annotations (CPython 3.14
  on; the file has no \<open>from __future__ import annotations\<close>), and an unbound name there is a
  \<open>NameError\<close> that ends the import. The flag \<open>TREE_SITTER_AVAILABLE\<close> of an \<open>extractor_env\<close> is
  the value this load leaves behind, so \<open>False\<close> is reached only with deferred annotations.
\<close>

record interpreter =
  tree_sitter_importable :: bool
  deferred_annotations :: bool

definition load_symbol_extractor :: "interpreter \<Rightarrow> string + bool" where
  "load_symbol_extractor py =
     (if tree_sitter_importable py then Inr True
      else if deferred_annotations py then Inr False
      else Inl ''NameError: name Node is not defined'')"

text \<open>A caller that imports the module and calls \<open>symbol_extractor.extract_symbols\<close>.\<close>

definition call_extract_symbols ::
  "interpreter \<Rightarrow> extractor_env \<Rightarrow> string \<Rightarrow> string \<Rightarrow> string + symbols" where
  "call_extract_symbols py env code language =
     (case load_symbol_extractor py of
        Inl e \<Rightarrow> Inl e
      | Inr available \<Rightarrow>
          extract_symbols (env\<lparr>TREE_SITTER_AVAILABLE := available\<rparr>) code language)"


section \<open>Chunker (\<open>git_utils.py\<close>)\<close>

text \<open>The members of the text-splitting library's \<open>Language\<close> enum that the extension map
  uses, and the \<open>.value\<close> of each.\<close>

datatype language =
    PYTHON | JS | TS | JAVA | KOTLIN | CPP | C | CSHARP | PHP | RUBY | GO | RUST | SWIFT
  | SCALA | MARKDOWN | HTML | SOL | LUA | PERL | HASKELL | ELIXIR | POWERSHELL
  | VISUALBASIC6 | PROTO | RST | LATEX | COBOL

fun language_value :: "language \<Rightarrow> string" where
  "language_value PYTHON = ''python''"
| "language_value JS = ''js''"
| "language_value TS = ''ts''"
| "language_value JAVA = ''java''"
| "language_value KOTLIN = ''kotlin''"
| "language_value CPP = ''cpp''"
| "language_value C = ''c''"
| "language_value CSHARP = ''csharp''"
| "language_value PHP = ''php''"
| "language_value RUBY = ''ruby''"
| "language_value GO = ''go''"
| "language_value RUST = ''rust''"
| "language_value SWIFT = ''swift''"
| "language_value SCALA = ''scala''"
| "language_value MARKDOWN = ''markdown''"
| "language_value HTML = ''html''"
| "language_value SOL = ''sol''"
| "language_value LUA = ''lua''"
| "language_value PERL = ''perl''"
| "language_value HASKELL = ''haskell''"
| "language_value ELIXIR = ''elixir''"
| "language_value POWERSHELL = ''powershell''"
| "language_value VISUALBASIC6 = ''visualbasic6''"
| "language_value PROTO = ''proto''"
| "language_value RST = ''rst''"
| "language_value LATEX = ''latex''"
| "language_value COBOL = ''cobol''"

definition extension_map :: "(string \<times> language) list" where
  "extension_map =
     [(''.py'', PYTHON), (''.js'', JS), (''.ts'', TS), (''.jsx'', JS), (''.tsx'', TS),
      (''.java'', JAVA), (''.kt'', KOTLIN), (''.cpp'', CPP), (''.cc'', CPP), (''.cxx'', CPP),
      (''.c'', C), (''.h'', C), (''.hpp'', CPP), (''.cs'', CSHARP), (''.php'', PHP),
      (''.rb'', RUBY), (''.go'', GO), (''.rs'', RUST), (''.swift'', SWIFT),
      (''.scala'', SCALA), (''.md'', MARKDOWN), (''.html'', HTML), (''.htm'', HTML),
      (''.sol'', SOL), (''.lua'', LUA), (''.pl'', PERL), (''.hs'', HASKELL),
      (''.ex'', ELIXIR), (''.exs'', ELIXIR), (''.ps1'', POWERSHELL), (''.vb'', VISUALBASIC6),
      (''.proto'', PROTO), (''.rst'', RST), (''.tex'', LATEX), (''.cob'', COBOL),
      (''.cbl'', COBOL)]"

definition get_language_from_extension :: "string \<Rightarrow> language option" where
  "get_language_from_extension file_path = map_of extension_map (lower (splitext_ext file_path))"

text \<open>\<open>symbols[key]\<close> under the guard \<open>key in symbols and symbols[key]\<close>, else nothing.\<close>

definition present_items :: "symbols \<Rightarrow> string \<Rightarrow> string list" where
  "present_items syms key =
     (case map_of syms key of
        None \<Rightarrow> []
      | Some v \<Rightarrow> (if v \<noteq> [] then v else []))"

definition import_keys :: "string list" where
  "import_keys = [''imports'', ''includes'', ''usings'', ''uses'', ''requires'']"

definition extract_imports_from_symbols :: "symbols \<Rightarrow> string list" where
  "extract_imports_from_symbols syms = concat (map (present_items syms) import_keys)"

definition symbol_mapping :: "(string \<times> string list) list" where
  "symbol_mapping =
     [(''functions'', [''functions'', ''methods'']),
      (''classes'', [''classes'', ''structs'', ''interfaces'', ''traits'', ''protocols'']),
      (''variables'', [''variables'', ''constants'', ''defines'']),
      (''types'', [''types'', ''enums'', ''typedefs'']),
      (''modules'', [''modules'', ''namespaces'', ''packages''])]"

definition extract_symbol_names :: "symbols \<Rightarrow> symbols" where
  "extract_symbol_names syms =
     filter (\<lambda>(k, v). v \<noteq> [])
       (map (\<lambda>(clean_type, symbol_keys).
               (clean_type, concat (map (present_items syms) symbol_keys)))
            symbol_mapping)"

text \<open>A value of the \<open>metadata\<close> dictionary, and the chunk dictionary itself. The fields
  \<open>id\<close> and \<open>imports\<close> of the source are \<open>id_str\<close> and \<open>imports_list\<close> here.\<close>

datatype mval = MStr string | MInt int | MBool bool

type_synonym embedding_vector = "rat list"

record chunk_record =
  id_str :: string
  repo_id :: string
  chunk_id :: "nat option"
  content :: string
  embedding :: "embedding_vector option"
  symbols :: symbols
  imports_list :: "string list"
  metadata :: "(string \<times> mval) list"

text \<open>
  What the chunker takes from outside the repository: the splitter
  (\<open>create_splitter_for_language(language, chunk_size, chunk_overlap)\<close> followed by
  \<open>create_documents([content])\<close>, giving the \<open>page_content\<close> of each document, or \<open>Inl\<close> the
  text \<open>str(e)\<close> of the exception raised), and the clock: \<open>now k\<close> is what
  \<open>datetime.now().isoformat()\<close> returns at the \<open>k\<close>-th record built.
\<close>

record chunker_env =
  splitter :: "language \<Rightarrow> int \<Rightarrow> int \<Rightarrow> string \<Rightarrow> string + string list"
  now :: "nat \<Rightarrow> string"

definition should_chunk :: "string \<Rightarrow> string \<Rightarrow> int \<Rightarrow> bool" where
  "should_chunk file_path content_text chunk_size =
     (int (length content_text) > chunk_size \<and> get_language_from_extension file_path \<noteq> None)"

definition language_name :: "string \<Rightarrow> string" where
  "language_name file_path =
     (case get_language_from_extension file_path of
        Some l \<Rightarrow> language_value l
      | None \<Rightarrow> ''unknown'')"

text \<open>The dictionary of the branch \<open>if not should_chunk\<close>.\<close>

definition single_record ::
  "chunker_env \<Rightarrow> string \<Rightarrow> string \<Rightarrow> string \<Rightarrow> symbols \<Rightarrow> string list \<Rightarrow> chunk_record" where
  "single_record cenv file_path content_text repo clean_symbols imps =
     \<lparr> id_str = file_path, repo_id = repo, chunk_id = None, content = content_text,
       embedding = None, symbols = clean_symbols, imports_list = imps,
       metadata = [(''language'', MStr (language_name file_path)),
                   (''size'', MInt (int (length content_text))),
                   (''timestamp'', MStr (now cenv 0))] \<rparr>"

text \<open>The dictionary built for document \<open>i\<close> in the loop over \<open>enumerate(documents)\<close>.\<close>

definition chunk_data ::
  "chunker_env \<Rightarrow> string \<Rightarrow> string \<Rightarrow> symbols \<Rightarrow> string list \<Rightarrow> nat \<Rightarrow> nat \<times> string
     \<Rightarrow> chunk_record" where
  "chunk_data cenv file_path repo clean_symbols imps total_chunks = (\<lambda>(i, chunk_content).
     \<lparr> id_str = file_path @ ''#chunk_'' @ str_nat i, repo_id = repo, chunk_id = Some i,
       content = chunk_content, embedding = None, symbols = clean_symbols, imports_list = imps,
       metadata = [(''language'', MStr (language_name file_path)),
                   (''size'', MInt (int (length chunk_content))),
                   (''timestamp'', MStr (now cenv i)),
                   (''total_chunks'', MInt (int total_chunks)),
                   (''is_chunked'', MBool True)] \<rparr>)"

text \<open>The dictionary of the handler \<open>except Exception as e\<close>.\<close>

definition error_record ::
  "chunker_env \<Rightarrow> string \<Rightarrow> string \<Rightarrow> string \<Rightarrow> symbols \<Rightarrow> string list \<Rightarrow> string
     \<Rightarrow> chunk_record" where
  "error_record cenv file_path content_text repo clean_symbols imps e =
     \<lparr> id_str = file_path, repo_id = repo, chunk_id = None, content = content_text,
       embedding = None, symbols = clean_symbols, imports_list = imps,
       metadata = [(''language'', MStr (language_name file_path)),
                   (''size'', MInt (int (length content_text))),
                   (''timestamp'', MStr (now cenv 0)),
                   (''chunking_error'', MStr e)] \<rparr>"

text \<open>
  \<open>process_file_structured\<close>. An exception of \<open>extract_file_symbols\<close> is not caught here and
  is the result \<open>Inl\<close>. In the \<open>try\<close> block the language is not \<open>None\<close>, by \<open>should_chunk\<close>.
\<close>

definition process_file_structured ::
  "extractor_env \<Rightarrow> chunker_env \<Rightarrow> string \<Rightarrow> string \<Rightarrow> string \<Rightarrow> int \<Rightarrow> int
     \<Rightarrow> string + chunk_record list" where
  "process_file_structured env cenv file_path content_text repo chunk_size chunk_overlap =
     (case extract_file_symbols env file_path content_text of
        Inl e \<Rightarrow> Inl e
      | Inr syms \<Rightarrow>
          (let imps = extract_imports_from_symbols syms;
               clean_symbols = extract_symbol_names syms
           in if \<not> should_chunk file_path content_text chunk_size
              then Inr [single_record cenv file_path content_text repo clean_symbols imps]
              else (case get_language_from_extension file_path of
                      None \<Rightarrow> Inr [single_record cenv file_path content_text repo clean_symbols imps]
                    | Some l \<Rightarrow>
                        (case splitter cenv l chunk_size chunk_overlap content_text of
                           Inr documents \<Rightarrow>
                             Inr (map (chunk_data cenv file_path repo clean_symbols imps
                                         (length documents))
                                      (enumerate 0 documents))
                         | Inl e \<Rightarrow>
                             Inr [error_record cenv file_path content_text repo
                                    clean_symbols imps e]))))"


section \<open>Vector store (\<open>vector_utils.py\<close>)\<close>

text \<open>
  \<open>repr(s)\<close> of a string and \<open>str(v)\<close> of a list of strings, as \<open>search_by_symbols\<close> applies it
  to each value of the symbols dictionary: the quote is \<open>'\<close> unless the string has a \<open>'\<close> and
  no \<open>"\<close>; the quote and the backslash are escaped with a backslash, tab, newline and carriage
  return become \<open>\t\<close>, \<open>\n\<close>, \<open>\r\<close>, every other non-printable character becomes \<open>\xHH\<close>; the
  items are joined by a comma and a space, inside square brackets.
\<close>

definition hex_digit :: "nat \<Rightarrow> char" where
  "hex_digit d = ''0123456789abcdef'' ! (d mod 16)"

definition is_printable :: "char \<Rightarrow> bool" where
  "is_printable c =
     (let n = (of_char c :: nat) in (32 \<le> n \<and> n < 127) \<or> (161 \<le> n \<and> n \<noteq> 173))"

definition repr_char :: "char \<Rightarrow> char \<Rightarrow> string" where
  "repr_char quote c =
     (if c = quote \<or> c = CHR 0x5C then [CHR 0x5C, c]
      else if c = CHR 0x09 then [CHR 0x5C, CHR ''t'']
      else if c = CHR 0x0A then [CHR 0x5C, CHR ''n'']
      else if c = CHR 0x0D then [CHR 0x5C, CHR ''r'']
      else if \<not> is_printable c
           then [CHR 0x5C, CHR ''x'', hex_digit (of_char c div 16), hex_digit (of_char c mod 16)]
      else [c])"

definition py_repr :: "string \<Rightarrow> string" where
  "py_repr s =
     (let quote = (if CHR 0x27 \<in> set s \<and> CHR 0x22 \<notin> set s then CHR 0x22 else CHR 0x27)
      in [quote] @ concat (map (repr_char quote) s) @ [quote])"

fun join :: "string \<Rightarrow> string list \<Rightarrow> string" where
  "join sep [] = []"
| "join sep [x] = x"
| "join sep (x # y # ys) = x @ sep @ join sep (y # ys)"

definition str_list :: "string list \<Rightarrow> string" where
  "str_list v = ''['' @ join '', '' (map py_repr v) @ '']''"

text \<open>
  An attribute of a stored record that holds JSON text: the key may be missing (\<open>.get\<close> then
  supplies the default text), the text may fail to parse (\<open>json.loads\<close> raises), or it parses.
\<close>

datatype 'a json_field = Absent | Malformed string | Parsed 'a

fun json_loads :: "'a \<Rightarrow> 'a json_field \<Rightarrow> string + 'a" where
  "json_loads dflt Absent = Inr dflt"
| "json_loads dflt (Malformed e) = Inl e"
| "json_loads dflt (Parsed v) = Inr v"

text \<open>The attributes dictionary of a stored vector (\<open>stored_metadata\<close> in the source); a
  field is \<open>None\<close> when the key is missing.\<close>

record stored_metadata =
  stored_repo_id :: "string option"
  stored_chunk_id :: "nat option"
  stored_content :: "string option"
  stored_symbols :: "symbols json_field"
  stored_imports :: "string list json_field"
  stored_file_metadata :: "(string \<times> mval) list json_field"

text \<open>A tuple returned by the backend's query: the id alone, the id and the distance, or
  the id, the distance and the attributes.\<close>

datatype query_row =
    Row1 string
  | Row2 string rat
  | Row3 string rat stored_metadata

fun row_len :: "query_row \<Rightarrow> nat" where
  "row_len (Row1 i) = 1"
| "row_len (Row2 i d) = 2"
| "row_len (Row3 i d m) = 3"

text \<open>A search result: the chunk dictionary with \<open>similarity_score\<close>, and \<open>match_type\<close> once a
  filter has set it.\<close>

record search_result = chunk_record +
  similarity_score :: rat
  match_type :: "string option"

text \<open>
  What the store takes from outside the repository: \<open>vecs.create_client\<close> (called before the
  \<open>try\<close>), \<open>vx.get_collection\<close>, \<open>self.embeddings.embed_query\<close> and \<open>collection.query\<close> with
  \<open>include_value\<close> and \<open>include_metadata\<close> set; \<open>Inl\<close> is an exception.
\<close>

type_synonym collection = nat
type_synonym filters = "(string \<times> string) list"

record store_env =
  create_client :: "string + unit"
  get_collection :: "string \<Rightarrow> string + collection"
  embed_query :: "string \<Rightarrow> string + embedding_vector"
  collection_query ::
    "collection \<Rightarrow> embedding_vector \<Rightarrow> int \<Rightarrow> filters option \<Rightarrow> string + query_row list"

text \<open>The body of the loop \<open>for result in results\<close> for a tuple with three positions.\<close>

definition structured_result :: "string \<Rightarrow> rat \<Rightarrow> stored_metadata \<Rightarrow> string + search_result" where
  "structured_result file_id cosine_distance sm =
     (case json_loads [] (stored_symbols sm) of
        Inl e \<Rightarrow> Inl e
      | Inr syms \<Rightarrow>
          (case json_loads [] (stored_imports sm) of
             Inl e \<Rightarrow> Inl e
           | Inr imps \<Rightarrow>
               (case json_loads [] (stored_file_metadata sm) of
                  Inl e \<Rightarrow> Inl e
                | Inr file_metadata \<Rightarrow>
                    Inr \<lparr> id_str = file_id,
                          repo_id = (case stored_repo_id sm of None \<Rightarrow> [] | Some r \<Rightarrow> r),
                          chunk_id = stored_chunk_id sm,
                          content = (case stored_content sm of None \<Rightarrow> [] | Some c \<Rightarrow> c),
                          embedding = None,
                          symbols = syms,
                          imports_list = imps,
                          metadata = file_metadata,
                          similarity_score = 1 - cosine_distance,
                          match_type = None \<rparr>)))"

fun structure_rows :: "query_row list \<Rightarrow> search_result list \<Rightarrow> string + search_result list" where
  "structure_rows [] structured_results = Inr structured_results"
| "structure_rows (Row3 file_id d sm # results) structured_results =
     (case structured_result file_id d sm of
        Inl e \<Rightarrow> Inl e
      | Inr r \<Rightarrow> structure_rows results (structured_results @ [r]))"
| "structure_rows (Row1 i # results) structured_results =
     structure_rows results structured_results"
| "structure_rows (Row2 i d # results) structured_results =
     structure_rows results structured_results"

text \<open>\<open>search_structured_repo\<close>: an exception inside the \<open>try\<close> gives the empty list; one of
  \<open>create_client\<close> reaches the caller.\<close>

definition search_structured_repo ::
  "store_env \<Rightarrow> string \<Rightarrow> string \<Rightarrow> int \<Rightarrow> filters option \<Rightarrow> string + search_result list" where
  "search_structured_repo senv collection_name query limit flt =
     (case create_client senv of
        Inl e \<Rightarrow> Inl e
      | Inr u \<Rightarrow>
          Inr (case get_collection senv collection_name of
                 Inl e \<Rightarrow> []
               | Inr coll \<Rightarrow>
                   (case embed_query senv query of
                      Inl e \<Rightarrow> []
                    | Inr query_embedding \<Rightarrow>
                        (case collection_query senv coll query_embedding limit flt of
                           Inl e \<Rightarrow> []
                         | Inr results \<Rightarrow>
                             (case structure_rows results [] of
                                Inl e \<Rightarrow> []
                              | Inr structured_results \<Rightarrow> structured_results)))))"

text \<open>The two tests of \<open>search_by_symbols\<close>.\<close>

definition exact_symbol :: "string \<Rightarrow> string \<Rightarrow> symbols \<Rightarrow> bool" where
  "exact_symbol symbol_type symbol_name syms =
     (case map_of syms symbol_type of
        None \<Rightarrow> False
      | Some v \<Rightarrow> symbol_name \<in> set v)"

definition partial_symbol :: "string \<Rightarrow> symbols \<Rightarrow> bool" where
  "partial_symbol symbol_name syms =
     list_ex (\<lambda>v. py_in (lower symbol_name) (lower (str_list v))) (map snd syms)"

fun filter_by_symbols ::
  "string \<Rightarrow> string \<Rightarrow> search_result list \<Rightarrow> search_result list \<Rightarrow> search_result list" where
  "filter_by_symbols symbol_type symbol_name [] filtered_results = filtered_results"
| "filter_by_symbols symbol_type symbol_name (r # results) filtered_results =
     (if exact_symbol symbol_type symbol_name (symbols r)
      then filter_by_symbols symbol_type symbol_name results
             (filtered_results @ [r\<lparr>match_type := Some ''exact_symbol''\<rparr>])
      else if partial_symbol symbol_name (symbols r)
      then filter_by_symbols symbol_type symbol_name results
             (filtered_results @ [r\<lparr>match_type := Some ''partial_symbol''\<rparr>])
      else filter_by_symbols symbol_type symbol_name results filtered_results)"

definition search_by_symbols ::
  "store_env \<Rightarrow> string \<Rightarrow> string \<Rightarrow> string \<Rightarrow> int \<Rightarrow> string + search_result list" where
  "search_by_symbols senv collection_name symbol_type symbol_name limit =
     (case search_structured_repo senv collection_name (symbol_type @ '' '' @ symbol_name)
             limit None of
        Inl e \<Rightarrow> Inl e
      | Inr results \<Rightarrow> Inr (filter_by_symbols symbol_type symbol_name results []))"

text \<open>The test of \<open>search_by_imports\<close>.\<close>

definition import_match :: "string \<Rightarrow> string list \<Rightarrow> bool" where
  "import_match import_pattern imps =
     list_ex (\<lambda>imp. py_in (lower import_pattern) (lower imp)) imps"

fun filter_by_imports ::
  "string \<Rightarrow> search_result list \<Rightarrow> search_result list \<Rightarrow> search_result list" where
  "filter_by_imports import_pattern [] filtered_results = filtered_results"
| "filter_by_imports import_pattern (r # results) filtered_results =
     (if import_match import_pattern (imports_list r)
      then filter_by_imports import_pattern results
             (filtered_results @ [r\<lparr>match_type := Some ''import_match''\<rparr>])
      else filter_by_imports import_pattern results filtered_results)"

definition search_by_imports ::
  "store_env \<Rightarrow> string \<Rightarrow> string \<Rightarrow> int \<Rightarrow> string + search_result list" where
  "search_by_imports senv collection_name import_pattern limit =
     (case search_structured_repo senv collection_name (''import '' @ import_pattern)
             limit None of
        Inl e \<Rightarrow> Inl e
      | Inr results \<Rightarrow> Inr (filter_by_imports import_pattern results []))"

text \<open>
  The specification's wording of the partial match, for comparison with \<open>partial_symbol\<close>:
  the name is a case-insensitive substring of some symbol name listed under some category.
\<close>

definition spec_name_in_symbol_values :: "string \<Rightarrow> symbols \<Rightarrow> bool" where
  "spec_name_in_symbol_values symbol_name syms =
     list_ex (\<lambda>v. list_ex (\<lambda>s. py_in (lower symbol_name) (lower s)) v) (map snd syms)"



section \<open>Example inputs\<close>

text \<open>
  Concrete collaborators for evaluating the definitions: an extractor without tree-sitter
  whose regular expressions match nothing, and splitters with a fixed answer. The splitter of
  \<open>blank_tail_env\<close> answers as the recursive character splitter does on \<open>blank_tail\<close> (an
  assignment followed by ten newlines) with \<open>chunk_size = 10\<close> and \<open>chunk_overlap = 2\<close>: the
  pieces after the first are whitespace only, are stripped to the empty string and dropped, so
  a single document is left.
\<close>

definition regex_only_env :: extractor_env where
  "regex_only_env =
     \<lparr> TREE_SITTER_AVAILABLE = False, parsers = [],
       tree_sitter_extract = (\<lambda>language code. Inl ''tree-sitter not available''),
       re_findall = (\<lambda>pat code. []) \<rparr>"

definition blank_tail :: string where
  "blank_tail = ''x = 1'' @ replicate 10 (CHR 0x0A)"

definition blank_tail_env :: chunker_env where
  "blank_tail_env =
     \<lparr> splitter = (\<lambda>l chunk_size chunk_overlap text. Inr [''x = 1'']),
       now = (\<lambda>k. ''2024-01-15T10:00:00'') \<rparr>"

definition two_segment_env :: chunker_env where
  "two_segment_env =
     \<lparr> splitter = (\<lambda>l chunk_size chunk_overlap text. Inr [''a = 1'', ''b = 2'']),
       now = (\<lambda>k. ''2024-01-15T10:00:00'') \<rparr>"

definition failing_splitter_env :: chunker_env where
  "failing_splitter_env =
     \<lparr> splitter = (\<lambda>l chunk_size chunk_overlap text. Inl ''boom''),
       now = (\<lambda>k. ''2024-01-15T10:00:00'') \<rparr>"

text \<open>
  A backend that answers every query with two stored records, a Python file with one function
  and one import, and a Markdown file without symbols, at distances \<open>1/4\<close> and \<open>1/2\<close>.
\<close>

definition main_py_row :: query_row where
  "main_py_row =
     Row3 ''main.py'' (1 / 4)
       \<lparr> stored_repo_id = Some ''repo'', stored_chunk_id = None,
         stored_content = Some ''def main(): import os'',
         stored_symbols = Parsed [(''functions'', [''main''])],
         stored_imports = Parsed [''import os''],
         stored_file_metadata = Parsed [(''language'', MStr ''python'')] \<rparr>"

definition readme_row :: query_row where
  "readme_row =
     Row3 ''README.md'' (1 / 2)
       \<lparr> stored_repo_id = Some ''repo'', stored_chunk_id = None,
         stored_content = Some ''hello'',
         stored_symbols = Parsed [],
         stored_imports = Parsed [],
         stored_file_metadata = Parsed [(''language'', MStr ''markdown'')] \<rparr>"

definition two_row_store :: store_env where
  "two_row_store =
     \<lparr> create_client = Inr (),
       get_collection = (\<lambda>name. Inr 0),
       embed_query = (\<lambda>text. Inr []),
       collection_query = (\<lambda>coll v limit flt. Inr [main_py_row, readme_row]) \<rparr>"

section \<open>The regular expression fallback and the body of \<open>extract_symbols\<close>\<close>

lemma dict_extend_ok: "key \<in> fst ` set syms \<Longrightarrow> \<exists>s. dict_extend syms key xs = Inr s \<and> map fst s = map fst syms"
proof (induction syms)
  case Nil
  then show ?case by simp
next
  case (Cons a syms)
  obtain k v where a: "a = (k, v)" by (cases a)
  show ?case
  proof (cases "k = key")
    case True
    then show ?thesis using a by simp
  next
    case False
    then have "key \<in> fst ` set syms" using Cons.prems a by auto
    from Cons.IH[OF this] obtain s where "dict_extend syms key xs = Inr s" "map fst s = map fst syms"
      by blast
    then show ?thesis using a False by simp
  qed
qed

lemma fallback_patterns_ok:
  "symbol_type \<in> fst ` set syms \<Longrightarrow>
   \<exists>s. fallback_patterns env code symbol_type ps syms = Inr s \<and> map fst s = map fst syms"
proof (induction ps arbitrary: syms)
  case Nil
  then show ?case by simp
next
  case (Cons p ps)
  from dict_extend_ok[OF Cons.prems, of "re_findall env p code"]
  obtain s where s: "dict_extend syms symbol_type (re_findall env p code) = Inr s" "map fst s = map fst syms"
    by blast
  have "symbol_type \<in> fst ` set s" using Cons.prems s(2)
    by (metis list.set_map)
  from Cons.IH[OF this] s show ?case by auto
qed

lemma fallback_types_ok:
  "fst ` set table \<subseteq> fst ` set syms \<Longrightarrow> \<exists>s. fallback_types env code table syms = Inr s \<and> map fst s = map fst syms"
proof (induction table arbitrary: syms)
  case Nil
  then show ?case by simp
next
  case (Cons a table)
  obtain st pl where a: "a = (st, pl)" by (cases a)
  have "st \<in> fst ` set syms" using Cons.prems a by auto
  from fallback_patterns_ok[OF this, of env code pl]
  obtain s where s: "fallback_patterns env code st pl syms = Inr s" "map fst s = map fst syms" by blast
  have "fst ` set table \<subseteq> fst ` set s" using Cons.prems s(2) by (metis list.set_map set_subset_Cons image_mono subset_trans)
  from Cons.IH[OF this] s a show ?case by auto
qed

lemma fallback_extraction_ok: "\<exists>s. fallback_extraction env code language = Inr s"
proof (cases "map_of patterns language")
  case None
  then show ?thesis by (simp add: fallback_extraction_def)
next
  case (Some table)
  then have "fst ` set table \<subseteq> fst ` set empty_fallback_symbols"
    by (auto simp: patterns_def empty_fallback_symbols_def split: if_splits)
  from fallback_types_ok[OF this, of env code] Some show ?thesis
    by (auto simp: fallback_extraction_def)
qed

lemma extract_symbols_ok: "\<exists>s. extract_symbols env code language = Inr s"
  using fallback_extraction_ok[of env code language]
  by (auto simp: extract_symbols_def split: sum.splits)

lemma extract_file_symbols_ok: "\<exists>s. extract_file_symbols env file_path content_text = Inr s"
  using extract_symbols_ok
  by (auto simp: extract_file_symbols_def split: option.splits)

lemma extension_maps_agree:
  "map_of extension_map k = None \<Longrightarrow> map_of extractor_extension_map k = None"
  by (simp add: extension_map_def extractor_extension_map_def split: if_splits)

lemma extractor_language_None:
  "get_language_from_extension p = None \<Longrightarrow> extractor_language p = None"
  by (simp add: get_language_from_extension_def extractor_language_def extension_maps_agree)

lemma digit_char_inj: "a < 10 \<Longrightarrow> b < 10 \<Longrightarrow> digit_char a = digit_char b \<Longrightarrow> a = b"
proof -
  assume a: "a < 10" and b: "b < 10" and e: "digit_char a = digit_char b"
  have A: "a \<in> {0,1,2,3,4,5,6,7,8,9}" using a by auto
  have B: "b \<in> {0,1,2,3,4,5,6,7,8,9}" using b by auto
  show ?thesis using A B e by (auto simp: digit_char_def)
qed

lemma str_nat_nonempty: "str_nat n \<noteq> []"
  by (subst str_nat.simps) simp

lemma str_nat_inj: "str_nat n = str_nat m \<Longrightarrow> n = m"
proof (induction n arbitrary: m rule: str_nat.induct)
  case (1 n)
  show ?case
  proof (cases "n < 10")
    case True
    note n = True
    show ?thesis
    proof (cases "m < 10")
      case True
      with n "1.prems" show ?thesis
        by (simp add: str_nat.simps[of n] str_nat.simps[of m] digit_char_inj)
    next
      case False
      with n "1.prems" str_nat_nonempty[of "m div 10"] show ?thesis
        by (simp add: str_nat.simps[of n] str_nat.simps[of m])
    qed
  next
    case False
    note n = False
    show ?thesis
    proof (cases "m < 10")
      case True
      with n "1.prems" str_nat_nonempty[of "n div 10"] show ?thesis
        by (simp add: str_nat.simps[of n] str_nat.simps[of m])
    next
      case False
      with n "1.prems" have e: "str_nat (n div 10) = str_nat (m div 10)"
        and d: "digit_char (n mod 10) = digit_char (m mod 10)"
        by (simp_all add: str_nat.simps[of n] str_nat.simps[of m])
      from "1.IH"[OF n e] have "n div 10 = m div 10" .
      moreover from d have "n mod 10 = m mod 10" by (intro digit_char_inj) simp_all
      ultimately show ?thesis by (metis div_mult_mod_eq)
    qed
  qed
qed

lemma chunk_ids_distinct: "distinct (map (\<lambda>i. p @ ''#chunk_'' @ str_nat i) [0..<n])"
  by (auto simp: distinct_map inj_on_def dest: str_nat_inj)

section \<open>The three outcomes of the chunker\<close>

lemma process_whole:
  assumes "\<not> (int (length c) > cs \<and> get_language_from_extension p \<noteq> None)"
  shows "\<exists>syms. extract_file_symbols env p c = Inr syms \<and>
           process_file_structured env cenv p c repo cs co =
             Inr [single_record cenv p c repo (extract_symbol_names syms)
                    (extract_imports_from_symbols syms)]"
proof -
  obtain syms where s: "extract_file_symbols env p c = Inr syms"
    using extract_file_symbols_ok by blast
  have "\<not> should_chunk p c cs" using assms by (simp add: should_chunk_def)
  then show ?thesis using s by (simp add: process_file_structured_def Let_def)
qed

lemma process_split:
  assumes "int (length c) > cs" and "get_language_from_extension p = Some l"
    and "splitter cenv l cs co c = Inr docs"
  shows "\<exists>syms. extract_file_symbols env p c = Inr syms \<and>
           process_file_structured env cenv p c repo cs co =
             Inr (map (chunk_data cenv p repo (extract_symbol_names syms)
                         (extract_imports_from_symbols syms) (length docs))
                      (enumerate 0 docs))"
proof -
  obtain syms where s: "extract_file_symbols env p c = Inr syms"
    using extract_file_symbols_ok by blast
  have "should_chunk p c cs" using assms by (simp add: should_chunk_def)
  then show ?thesis using s assms by (simp add: process_file_structured_def Let_def)
qed

lemma process_failed:
  assumes "int (length c) > cs" and "get_language_from_extension p = Some l"
    and "splitter cenv l cs co c = Inl e"
  shows "\<exists>syms. extract_file_symbols env p c = Inr syms \<and>
           process_file_structured env cenv p c repo cs co =
             Inr [error_record cenv p c repo (extract_symbol_names syms)
                    (extract_imports_from_symbols syms) e]"
proof -
  obtain syms where s: "extract_file_symbols env p c = Inr syms"
    using extract_file_symbols_ok by blast
  have "should_chunk p c cs" using assms by (simp add: should_chunk_def)
  then show ?thesis using s assms by (simp add: process_file_structured_def Let_def)
qed

lemma chunk_data_fields:
  "id_str (chunk_data cenv p repo cl im n x) = p @ ''#chunk_'' @ str_nat (fst x)"
  "chunk_id (chunk_data cenv p repo cl im n x) = Some (fst x)"
  "content (chunk_data cenv p repo cl im n x) = snd x"
  "symbols (chunk_data cenv p repo cl im n x) = cl"
  "imports_list (chunk_data cenv p repo cl im n x) = im"
  "repo_id (chunk_data cenv p repo cl im n x) = repo"
  "embedding (chunk_data cenv p repo cl im n x) = None"
  "map_of (metadata (chunk_data cenv p repo cl im n x)) ''language'' = Some (MStr (language_name p))"
  "map_of (metadata (chunk_data cenv p repo cl im n x)) ''total_chunks'' = Some (MInt (int n))"
  by (cases x; simp add: chunk_data_def)+

lemma map_fst_enumerate_fun:
  "map (\<lambda>x. f (fst x)) (enumerate k xs) = map f [k..<k + length xs]"
proof -
  have "map f [k..<k + length xs] = map f (map fst (enumerate k xs))"
    by (simp only: map_fst_enumerate)
  also have "\<dots> = map (\<lambda>x. f (fst x)) (enumerate k xs)"
    by (simp only: map_map o_def)
  finally show ?thesis by simp
qed

lemma map_enumerate_ids:
  "map (\<lambda>x. id_str (chunk_data cenv p repo cl im n x)) (enumerate k docs) =
   map (\<lambda>i. p @ ''#chunk_'' @ str_nat i) [k..<k + length docs]"
  unfolding chunk_data_fields
  by (rule map_fst_enumerate_fun[where f = "\<lambda>i. p @ ''#chunk_'' @ str_nat i"])

lemma map_enumerate_chunk_ids:
  "map (\<lambda>x. chunk_id (chunk_data cenv p repo cl im n x)) (enumerate k docs) =
   map Some [k..<k + length docs]"
  unfolding chunk_data_fields
  by (rule map_fst_enumerate_fun[where f = Some])

lemma map_enumerate_content:
  "map (\<lambda>x. content (chunk_data cenv p repo cl im n x)) (enumerate k docs) = docs"
  unfolding chunk_data_fields by (rule map_snd_enumerate)


lemma single_record_fields:
  "id_str (single_record cenv p c repo cl im) = p"
  "chunk_id (single_record cenv p c repo cl im) = None"
  "content (single_record cenv p c repo cl im) = c"
  "symbols (single_record cenv p c repo cl im) = cl"
  "imports_list (single_record cenv p c repo cl im) = im"
  "embedding (single_record cenv p c repo cl im) = None"
  "map fst (metadata (single_record cenv p c repo cl im)) = [''language'', ''size'', ''timestamp'']"
  by (simp_all add: single_record_def)

lemma error_record_fields:
  "id_str (error_record cenv p c repo cl im e) = p"
  "chunk_id (error_record cenv p c repo cl im e) = None"
  "content (error_record cenv p c repo cl im e) = c"
  "symbols (error_record cenv p c repo cl im e) = cl"
  "imports_list (error_record cenv p c repo cl im e) = im"
  "embedding (error_record cenv p c repo cl im e) = None"
  "map fst (metadata (error_record cenv p c repo cl im e)) =
     [''language'', ''size'', ''timestamp'', ''chunking_error'']"
  "map_of (metadata (error_record cenv p c repo cl im e)) ''chunking_error'' = Some (MStr e)"
  by (simp_all add: error_record_def)

lemma language_name_Some:
  "get_language_from_extension p = Some l \<Longrightarrow> language_name p = language_value l"
  by (simp add: language_name_def)

lemma extract_file_symbols_unsupported:
  "extractor_language p = None \<Longrightarrow>
   extract_file_symbols env p c = Inr [(''error'', [''Unsupported file type''])]"
  by (simp add: extract_file_symbols_def)

lemma clean_error_symbols:
  "extract_symbol_names [(''error'', [''Unsupported file type''])] = []"
  "extract_imports_from_symbols [(''error'', [''Unsupported file type''])] = []"
  by (simp_all add: extract_symbol_names_def extract_imports_from_symbols_def symbol_mapping_def
        import_keys_def present_items_def)

lemma chunk_ids_of_split_file:
  assumes "int (length c) > cs" and "get_language_from_extension p = Some l"
    and "splitter cenv l cs co c = Inr docs" and "2 \<le> length docs"
  shows "\<exists>rs. process_file_structured env cenv p c repo cs co = Inr rs \<and>
           length rs = length docs \<and>
           map id_str rs = map (\<lambda>i. p @ ''#chunk_'' @ str_nat i) [0..<length docs] \<and>
           distinct (map id_str rs)"
proof -
  from process_split[OF assms(1-3), of env repo]
  obtain syms where r: "process_file_structured env cenv p c repo cs co =
             Inr (map (chunk_data cenv p repo (extract_symbol_names syms)
                         (extract_imports_from_symbols syms) (length docs))
                      (enumerate 0 docs))"
    by blast
  let ?rs = "map (chunk_data cenv p repo (extract_symbol_names syms)
                         (extract_imports_from_symbols syms) (length docs))
                      (enumerate 0 docs)"
  have ids: "map id_str ?rs = map (\<lambda>i. p @ ''#chunk_'' @ str_nat i) [0..<length docs]"
    using map_enumerate_ids[of cenv p repo _ _ "length docs" 0 docs] by (simp add: o_def)
  have "distinct (map id_str ?rs)" unfolding ids by (rule chunk_ids_distinct)
  with r ids show ?thesis by (intro exI[of _ ?rs]) simp
qed

lemma call_extract_symbols_ok:
  "tree_sitter_importable py \<or> deferred_annotations py \<Longrightarrow>
   \<exists>syms. call_extract_symbols py env code language = Inr syms"
  using extract_symbols_ok
  by (auto simp: call_extract_symbols_def load_symbol_extractor_def)

section \<open>The substring test, the filters and the search results\<close>

lemma starts_with_iff: "starts_with a b \<longleftrightarrow> (\<exists>v. b = a @ v)"
  by (induction a b rule: starts_with.induct) auto

lemma py_in_iff: "py_in a b \<longleftrightarrow> (\<exists>u v. b = u @ a @ v)"
proof (induction b)
  case Nil
  then show ?case by auto
next
  case (Cons y b)
  show ?case
  proof
    assume "py_in a (y # b)"
    then consider "starts_with a (y # b)" | "py_in a b" by auto
    then show "\<exists>u v. y # b = u @ a @ v"
    proof cases
      case 1
      then obtain v where "y # b = a @ v" using starts_with_iff by blast
      then have "y # b = [] @ a @ v" by simp
      then show ?thesis by blast
    next
      case 2
      with Cons.IH obtain u v where "b = u @ a @ v" by blast
      then have "y # b = (y # u) @ a @ v" by simp
      then show ?thesis by blast
    qed
  next
    assume "\<exists>u v. y # b = u @ a @ v"
    then obtain u v where e: "y # b = u @ a @ v" by blast
    show "py_in a (y # b)"
    proof (cases u)
      case Nil
      with e have "starts_with a (y # b)" using starts_with_iff by auto
      then show ?thesis by simp
    next
      case (Cons z u')
      with e have "b = u' @ a @ v" by simp
      with Cons.IH have "py_in a b" by blast
      then show ?thesis by simp
    qed
  qed
qed

lemma filter_by_imports_eq:
  "filter_by_imports pat rs acc =
     acc @ map (\<lambda>r. r\<lparr>match_type := Some ''import_match''\<rparr>)
             (filter (\<lambda>r. import_match pat (imports_list r)) rs)"
  by (induction rs arbitrary: acc) simp_all

lemma filter_by_symbols_eq:
  "filter_by_symbols st sn rs acc =
     acc @ map (\<lambda>r. r\<lparr>match_type := Some (if exact_symbol st sn (symbols r)
                                            then ''exact_symbol'' else ''partial_symbol'')\<rparr>)
             (filter (\<lambda>r. exact_symbol st sn (symbols r) \<or> partial_symbol sn (symbols r)) rs)"
  by (induction rs arbitrary: acc) simp_all

lemma structured_result_embedding:
  "structured_result i d sm = Inr r \<Longrightarrow> embedding r = None"
  by (auto simp: structured_result_def split: sum.splits)

lemma structure_rows_embedding:
  "structure_rows rows acc = Inr rs \<Longrightarrow> \<forall>r \<in> set acc. embedding r = None \<Longrightarrow>
   \<forall>r \<in> set rs. embedding r = None"
proof (induction rows acc arbitrary: rs rule: structure_rows.induct)
  case (1 structured_results)
  then show ?case by simp
next
  case (2 file_id d sm results structured_results)
  from "2.prems"(1) obtain r where r: "structured_result file_id d sm = Inr r"
    and rest: "structure_rows results (structured_results @ [r]) = Inr rs"
    by (auto split: sum.splits)
  have "\<forall>x \<in> set (structured_results @ [r]). embedding x = None"
    using "2.prems"(2) structured_result_embedding[OF r] by auto
  from "2.IH"[OF r rest this] show ?case .
next
  case (3 i results structured_results)
  then show ?case by simp
next
  case (4 i d results structured_results)
  then show ?case by simp
qed

lemma search_structured_repo_embedding:
  "search_structured_repo senv coll q limit flt = Inr rs \<Longrightarrow> \<forall>r \<in> set rs. embedding r = None"
  using structure_rows_embedding[of _ "[]"]
  by (auto simp: search_structured_repo_def split: sum.splits)

lemma import_match_iff:
  "import_match pat imps \<longleftrightarrow> (\<exists>imp \<in> set imps. \<exists>u v. lower imp = u @ lower pat @ v)"
  by (simp add: import_match_def list_ex_iff py_in_iff)


section \<open>Claims about the chunker\<close>

text \<open>
  C1, evaluated where the code departs from it. The file \<open>a.py\<close> holds \<open>x = 1\<close> followed by
  ten newlines and \<open>chunk_size\<close> is \<open>10\<close>, so \<open>should_chunk\<close> holds; the splitter returns the single
  document \<open>x = 1\<close>. Exactly one record is produced, and its id is \<open>a.py#chunk_0\<close>, not the file
  path: the loop under \<open># Multiple chunks\<close> has no case for a single document, and the record
  also carries \<open>chunk_id = 0\<close>, \<open>total_chunks = 1\<close> and \<open>is_chunked = True\<close>.
\<close>

theorem single_segment_file_gets_chunk_suffix:
  "process_file_structured regex_only_env blank_tail_env ''a.py'' blank_tail ''repo'' 10 2 =
     Inr [\<lparr> id_str = ''a.py#chunk_0'', repo_id = ''repo'', chunk_id = Some 0,
            content = ''x = 1'', embedding = None, symbols = [], imports_list = [],
            metadata = [(''language'', MStr ''python''), (''size'', MInt 5),
                        (''timestamp'', MStr ''2024-01-15T10:00:00''),
                        (''total_chunks'', MInt 1), (''is_chunked'', MBool True)] \<rparr>]
   \<and> ''a.py#chunk_0'' \<noteq> ''a.py''"
  by code_simp

text \<open>
  C2. For every file sent to the splitter, when the splitter returns \<open>N\<close> segments exactly
  \<open>N\<close> records are produced; their \<open>chunk_id\<close> values are \<open>0\<close> to \<open>N-1\<close> in the order of the
  segments, record \<open>i\<close> holds segment \<open>i\<close>, and all of them carry the same symbols, the same
  imports, the same metadata language and \<open>total_chunks = N\<close>.
\<close>

theorem split_file_records:
  assumes "int (length c) > cs" and "get_language_from_extension p = Some l"
    and "splitter cenv l cs co c = Inr docs"
  shows "\<exists>rs cl im. process_file_structured env cenv p c repo cs co = Inr rs \<and>
           length rs = length docs \<and>
           map chunk_id rs = map Some [0..<length docs] \<and>
           map content rs = docs \<and>
           (\<forall>r \<in> set rs. symbols r = cl \<and> imports_list r = im \<and>
              map_of (metadata r) ''language'' = Some (MStr (language_value l)) \<and>
              map_of (metadata r) ''total_chunks'' = Some (MInt (int (length docs))))"
proof -
  from process_split[OF assms, of env repo]
  obtain syms where r: "process_file_structured env cenv p c repo cs co =
             Inr (map (chunk_data cenv p repo (extract_symbol_names syms)
                         (extract_imports_from_symbols syms) (length docs))
                      (enumerate 0 docs))"
    by blast
  let ?cl = "extract_symbol_names syms" and ?im = "extract_imports_from_symbols syms"
  let ?rs = "map (chunk_data cenv p repo ?cl ?im (length docs)) (enumerate 0 docs)"
  have 1: "map chunk_id ?rs = map Some [0..<length docs]"
    using map_enumerate_chunk_ids[of cenv p repo ?cl ?im "length docs" 0 docs]
    by (simp add: o_def)
  have 2: "map content ?rs = docs"
    using map_enumerate_content[of cenv p repo ?cl ?im "length docs" 0 docs]
    by (simp add: o_def)
  have 3: "\<forall>r \<in> set ?rs. symbols r = ?cl \<and> imports_list r = ?im \<and>
              map_of (metadata r) ''language'' = Some (MStr (language_value l)) \<and>
              map_of (metadata r) ''total_chunks'' = Some (MInt (int (length docs)))"
    using assms(2) by (auto simp: chunk_data_fields language_name_Some)
  have 4: "length ?rs = length docs" by simp
  from r 1 2 3 4 show ?thesis by blast
qed

theorem split_file_records_witness:
  "int (length ''a = 1 b = 2'') > 10 \<and> get_language_from_extension ''a.py'' = Some PYTHON \<and>
   splitter two_segment_env PYTHON 10 2 ''a = 1 b = 2'' = Inr [''a = 1'', ''b = 2''] \<and>
   (\<exists>rs. process_file_structured regex_only_env two_segment_env ''a.py'' ''a = 1 b = 2'' ''repo'' 10 2
           = Inr rs \<and>
         map chunk_id rs = [Some 0, Some 1] \<and> map content rs = [''a = 1'', ''b = 2''])"
proof -
  have h1: "int (length ''a = 1 b = 2'') > 10" by simp
  have h2: "get_language_from_extension ''a.py'' = Some PYTHON" by code_simp
  have h3: "splitter two_segment_env PYTHON 10 2 ''a = 1 b = 2'' = Inr [''a = 1'', ''b = 2'']"
    by (simp add: two_segment_env_def)
  have e: "map Some [0..<length [''a = 1'', ''b = 2'']] = [Some 0, Some (1::nat)]"
    by code_simp
  from split_file_records[OF h1 h2 h3, of regex_only_env "''repo''"] e h1 h2 h3
  show ?thesis by auto
qed

text \<open>
  C3. The result of \<open>process_file_structured\<close> depends on the splitter if and only if
  \<open>len(content) > chunk_size\<close> and a language is detected from the extension of the path; in
  every other case it is exactly one whole-file record whose content is the input content
  (its id is the path and its \<open>chunk_id\<close> is \<open>None\<close>).
\<close>

theorem split_decision:
  "((\<exists>sp sp'. process_file_structured env (cenv\<lparr>splitter := sp\<rparr>) p c repo cs co \<noteq>
               process_file_structured env (cenv\<lparr>splitter := sp'\<rparr>) p c repo cs co)
      \<longleftrightarrow> (int (length c) > cs \<and> get_language_from_extension p \<noteq> None)) \<and>
   (\<not> (int (length c) > cs \<and> get_language_from_extension p \<noteq> None) \<longrightarrow>
      (\<exists>r. process_file_structured env cenv p c repo cs co = Inr [r] \<and>
           content r = c \<and> id_str r = p \<and> chunk_id r = None))"
proof -
  let ?differs = "\<exists>sp sp'. process_file_structured env (cenv\<lparr>splitter := sp\<rparr>) p c repo cs co \<noteq>
               process_file_structured env (cenv\<lparr>splitter := sp'\<rparr>) p c repo cs co"
  let ?cond = "int (length c) > cs \<and> get_language_from_extension p \<noteq> None"
  have whole: "\<exists>r. process_file_structured env cenv p c repo cs co = Inr [r] \<and>
           content r = c \<and> id_str r = p \<and> chunk_id r = None" if n: "\<not> ?cond"
    using process_whole[OF n, of env cenv repo co] by (auto simp: single_record_fields)
  have same: "\<not> ?differs" if n: "\<not> ?cond"
  proof -
    have "process_file_structured env (cenv\<lparr>splitter := sp\<rparr>) p c repo cs co =
          process_file_structured env cenv p c repo cs co" for sp
      using process_whole[OF n, of env "cenv\<lparr>splitter := sp\<rparr>" repo co]
            process_whole[OF n, of env cenv repo co]
      by (auto simp: single_record_def)
    then show ?thesis by simp
  qed
  have differs: "?differs" if a: "?cond"
  proof -
    from a obtain l where l: "get_language_from_extension p = Some l" by auto
    let ?ok = "\<lambda>(l::language) (a::int) (b::int) (t::string). (Inr [] :: string + string list)"
    let ?bad = "\<lambda>(l::language) (a::int) (b::int) (t::string). (Inl [] :: string + string list)"
    have 1: "process_file_structured env (cenv\<lparr>splitter := ?ok\<rparr>) p c repo cs co = Inr []"
      using process_split[of cs c p l "cenv\<lparr>splitter := ?ok\<rparr>" co "[]" env repo] a l by auto
    have 2: "\<exists>r. process_file_structured env (cenv\<lparr>splitter := ?bad\<rparr>) p c repo cs co = Inr [r]"
      using process_failed[of cs c p l "cenv\<lparr>splitter := ?bad\<rparr>" co "[]" env repo] a l by auto
    from 1 2 have "process_file_structured env (cenv\<lparr>splitter := ?ok\<rparr>) p c repo cs co \<noteq>
                   process_file_structured env (cenv\<lparr>splitter := ?bad\<rparr>) p c repo cs co"
      by auto
    then show ?thesis by blast
  qed
  from whole same differs show ?thesis by blast
qed

theorem split_decision_witness:
  "\<not> (int (length ''hello'') > 4000 \<and> get_language_from_extension ''notes.py'' \<noteq> None) \<and>
   (\<exists>r. process_file_structured regex_only_env two_segment_env ''notes.py'' ''hello'' ''repo'' 4000 400
          = Inr [r] \<and> content r = ''hello'' \<and> id_str r = ''notes.py'' \<and> chunk_id r = None)"
proof -
  have h: "\<not> (int (length ''hello'') > 4000 \<and> get_language_from_extension ''notes.py'' \<noteq> None)"
    by simp
  from split_decision[of regex_only_env two_segment_env "''notes.py''" "''hello''" "''repo''" 4000 400] h
  show ?thesis by blast
qed

text \<open>
  C4. When the splitter raises on a file, \<open>process_file_structured\<close> still returns exactly
  one record for it, with the original content and with \<open>metadata['chunking_error']\<close> equal to
  the text of the exception.
\<close>

theorem splitter_failure_keeps_file:
  assumes "int (length c) > cs" and "get_language_from_extension p = Some l"
    and "splitter cenv l cs co c = Inl e"
  shows "\<exists>r. process_file_structured env cenv p c repo cs co = Inr [r] \<and>
           content r = c \<and> map_of (metadata r) ''chunking_error'' = Some (MStr e)"
  using process_failed[OF assms, of env repo] by (auto simp: error_record_fields)

theorem splitter_failure_keeps_file_witness:
  "int (length ''a = 1 b = 2'') > 10 \<and> get_language_from_extension ''a.py'' = Some PYTHON \<and>
   splitter failing_splitter_env PYTHON 10 2 ''a = 1 b = 2'' = Inl ''boom'' \<and>
   (\<exists>r. process_file_structured regex_only_env failing_splitter_env ''a.py'' ''a = 1 b = 2'' ''repo'' 10 2
           = Inr [r] \<and> content r = ''a = 1 b = 2'' \<and>
           map_of (metadata r) ''chunking_error'' = Some (MStr ''boom''))"
proof -
  have h1: "int (length ''a = 1 b = 2'') > 10" by simp
  have h2: "get_language_from_extension ''a.py'' = Some PYTHON" by code_simp
  have h3: "splitter failing_splitter_env PYTHON 10 2 ''a = 1 b = 2'' = Inl ''boom''"
    by (simp add: failing_splitter_env_def)
  from splitter_failure_keeps_file[OF h1 h2 h3, of regex_only_env "''repo''"] h1 h2 h3
  show ?thesis by blast
qed

text \<open>
  C5 (as amended). For a file whose extension is not in the chunker's extension map, the
  extractor returns \<open>{'error': ['Unsupported file type']}\<close>, and the chunker produces exactly
  one whole-file record whose \<open>symbols\<close> is the empty dictionary (\<open>extract_symbol_names\<close> keeps
  only its five clean categories, so the \<open>error\<close> category is not carried over), whose
  \<open>imports\<close> is the empty list and whose language is \<open>unknown\<close>.
\<close>

theorem unknown_extension_record:
  assumes "get_language_from_extension p = None"
  shows "extract_file_symbols env p c = Inr [(''error'', [''Unsupported file type''])] \<and>
         (\<exists>r. process_file_structured env cenv p c repo cs co = Inr [r] \<and>
              id_str r = p \<and> chunk_id r = None \<and> content r = c \<and>
              symbols r = [] \<and> imports_list r = [] \<and>
              map_of (metadata r) ''language'' = Some (MStr ''unknown''))"
proof -
  have e: "extract_file_symbols env p c = Inr [(''error'', [''Unsupported file type''])]"
    using assms by (simp add: extract_file_symbols_unsupported extractor_language_None)
  have n: "\<not> (int (length c) > cs \<and> get_language_from_extension p \<noteq> None)"
    using assms by simp
  from process_whole[OF n, of env cenv repo co] e
  have "process_file_structured env cenv p c repo cs co =
          Inr [single_record cenv p c repo [] []]"
    by (auto simp: clean_error_symbols)
  then show ?thesis using e assms
    by (simp add: single_record_def language_name_def)
qed

theorem unknown_extension_record_witness:
  "get_language_from_extension ''data.xyz'' = None \<and>
   extract_file_symbols regex_only_env ''data.xyz'' ''abc'' =
     Inr [(''error'', [''Unsupported file type''])] \<and>
   (\<exists>r. process_file_structured regex_only_env two_segment_env ''data.xyz'' ''abc'' ''repo'' 4000 400
          = Inr [r] \<and> symbols r = [] \<and> imports_list r = [])"
proof -
  have h: "get_language_from_extension ''data.xyz'' = None" by code_simp
  from unknown_extension_record[OF h, of regex_only_env "''abc''" two_segment_env "''repo''" 4000 400] h
  show ?thesis by blast
qed

theorem unknown_extension_symbols_counterexample:
  "process_file_structured regex_only_env two_segment_env ''data.xyz'' ''abc'' ''repo'' 4000 400 =
     Inr [\<lparr> id_str = ''data.xyz'', repo_id = ''repo'', chunk_id = None,
            content = ''abc'', embedding = None, symbols = [], imports_list = [],
            metadata = [(''language'', MStr ''unknown''), (''size'', MInt 3),
                        (''timestamp'', MStr ''2024-01-15T10:00:00'')] \<rparr>]
   \<and> ([] :: symbols) \<noteq> [(''error'', [''Unsupported file type''])]"
  by code_simp

text \<open>
  C9. In each of the three whole-file cases (the content is not longer than \<open>chunk_size\<close>,
  no language is detected, or the splitter raised) the chunker returns exactly one record,
  whose \<open>chunk_id\<close> is \<open>None\<close> and whose metadata has no \<open>total_chunks\<close> key.
\<close>

theorem whole_file_record_shape:
  assumes "\<not> int (length c) > cs \<or> get_language_from_extension p = None \<or>
           (\<exists>l e. get_language_from_extension p = Some l \<and> splitter cenv l cs co c = Inl e)"
  shows "\<exists>r. process_file_structured env cenv p c repo cs co = Inr [r] \<and>
           chunk_id r = None \<and> ''total_chunks'' \<notin> fst ` set (metadata r)"
proof (cases "int (length c) > cs \<and> get_language_from_extension p \<noteq> None")
  case False
  from process_whole[OF False, of env cenv repo co] show ?thesis
    by (auto simp: single_record_def)
next
  case True
  with assms obtain l e where "get_language_from_extension p = Some l"
    "splitter cenv l cs co c = Inl e" by auto
  with True process_failed[of cs c p l cenv co e env repo] show ?thesis
    by (auto simp: error_record_def)
qed

theorem whole_file_record_shape_witness:
  "get_language_from_extension ''a.py'' = Some PYTHON \<and>
   splitter failing_splitter_env PYTHON 10 2 ''a = 1 b = 2'' = Inl ''boom'' \<and>
   (\<exists>r. process_file_structured regex_only_env failing_splitter_env ''a.py'' ''a = 1 b = 2'' ''repo'' 10 2
          = Inr [r] \<and> chunk_id r = None \<and> ''total_chunks'' \<notin> fst ` set (metadata r))"
proof -
  have h2: "get_language_from_extension ''a.py'' = Some PYTHON" by code_simp
  have h3: "splitter failing_splitter_env PYTHON 10 2 ''a = 1 b = 2'' = Inl ''boom''"
    by (simp add: failing_splitter_env_def)
  have h: "\<not> int (length ''a = 1 b = 2'') > 10 \<or> get_language_from_extension ''a.py'' = None \<or>
      (\<exists>l e. get_language_from_extension ''a.py'' = Some l \<and>
             splitter failing_splitter_env l 10 2 ''a = 1 b = 2'' = Inl e)"
    using h2 h3 by blast
  from whole_file_record_shape[OF h, of regex_only_env "''repo''"] h2 h3 show ?thesis by blast
qed


section \<open>Claims about the symbol extractor\<close>

text \<open>
  C6, evaluated where the code departs from it. Tree-sitter cannot be imported and the
  interpreter evaluates annotations when a function is defined. The handler of the guarded
  import sets \<open>TREE_SITTER_AVAILABLE = False\<close>, but loading the module then stops with a
  \<open>NameError\<close> at the annotation \<open>root_node: Node\<close>, so a caller of \<open>extract_symbols\<close> gets that
  exception and not the result of the regular expression fallback, which for this input
  would be a dictionary.
\<close>

theorem extract_symbols_unavailable_tree_sitter:
  "load_symbol_extractor \<lparr>tree_sitter_importable = False, deferred_annotations = False\<rparr> =
     Inl ''NameError: name Node is not defined'' \<and>
   call_extract_symbols \<lparr>tree_sitter_importable = False, deferred_annotations = False\<rparr>
       regex_only_env ''def main(): pass'' ''python'' =
     Inl ''NameError: name Node is not defined'' \<and>
   fallback_extraction regex_only_env ''def main(): pass'' ''python'' =
     Inr [(''imports'', []), (''functions'', []), (''classes'', [])]"
  by code_simp


section \<open>Claims about the vector store\<close>

text \<open>
  C7, evaluated where the code departs from it. The backend's best result has the symbols
  \<open>{'functions': ['main']}\<close>; the search is for the name \<open>[\<close> in the category \<open>classes\<close>. The
  record has no category \<open>classes\<close>, and \<open>[\<close> is a substring of none of its symbol names, yet
  \<open>search_by_symbols\<close> returns it tagged \<open>partial_symbol\<close>: the test looks for the name in
  \<open>str(v)\<close>, the printed form \<open>['main']\<close> of the whole list, with its brackets, quotes,
  separators and escapes.
\<close>

theorem search_by_symbols_bracket_match:
  "search_by_symbols two_row_store ''repo'' ''classes'' ''['' 10 =
     Inr [\<lparr> id_str = ''main.py'', repo_id = ''repo'', chunk_id = None, content = ''def main(): import os'',
            embedding = None, symbols = [(''functions'', [''main''])],
            imports_list = [''import os''], metadata = [(''language'', MStr ''python'')],
            similarity_score = 3 / 4, match_type = Some ''partial_symbol'' \<rparr>] \<and>
   str_list [''main''] = [CHR ''['', CHR 0x27, CHR ''m'', CHR ''a'', CHR ''i'', CHR ''n'', CHR 0x27, CHR '']''] \<and>
   \<not> exact_symbol ''classes'' ''['' [(''functions'', [''main''])] \<and>
   \<not> spec_name_in_symbol_values ''['' [(''functions'', [''main''])]"
  by code_simp

text \<open>
  C8. The records returned by \<open>search_by_imports\<close> are, in their original order, exactly
  those results of the underlying search of which at least one import contains the pattern
  as a substring after both are lowercased; each is tagged \<open>match_type = 'import_match'\<close>.
\<close>

theorem search_by_imports_precision:
  assumes "search_by_imports senv coll pat limit = Inr rs"
  shows "(\<exists>base. search_structured_repo senv coll (''import '' @ pat) limit None = Inr base \<and>
            rs = map (\<lambda>r. r\<lparr>match_type := Some ''import_match''\<rparr>)
                   (filter (\<lambda>r. \<exists>imp \<in> set (imports_list r). \<exists>u v. lower imp = u @ lower pat @ v)
                      base)) \<and>
         (\<forall>r \<in> set rs. (\<exists>imp \<in> set (imports_list r). \<exists>u v. lower imp = u @ lower pat @ v) \<and>
                        match_type r = Some ''import_match'')"
proof -
  from assms obtain base where
    b: "search_structured_repo senv coll (''import '' @ pat) limit None = Inr base"
    and r: "rs = filter_by_imports pat base []"
    by (auto simp: search_by_imports_def split: sum.splits)
  have e: "rs = map (\<lambda>r. r\<lparr>match_type := Some ''import_match''\<rparr>)
                   (filter (\<lambda>r. \<exists>imp \<in> set (imports_list r). \<exists>u v. lower imp = u @ lower pat @ v)
                      base)"
    unfolding r filter_by_imports_eq by (simp add: import_match_iff)
  have "\<forall>r \<in> set rs. (\<exists>imp \<in> set (imports_list r). \<exists>u v. lower imp = u @ lower pat @ v) \<and>
                        match_type r = Some ''import_match''"
    unfolding e by auto
  with b e show ?thesis by blast
qed

theorem search_by_imports_precision_witness:
  "search_by_imports two_row_store ''repo'' ''OS'' 10 =
     Inr [\<lparr> id_str = ''main.py'', repo_id = ''repo'', chunk_id = None, content = ''def main(): import os'',
            embedding = None, symbols = [(''functions'', [''main''])],
            imports_list = [''import os''], metadata = [(''language'', MStr ''python'')],
            similarity_score = 3 / 4, match_type = Some ''import_match'' \<rparr>] \<and>
   (\<exists>u v. lower ''import os'' = u @ lower ''OS'' @ v)"
proof -
  have h: "search_by_imports two_row_store ''repo'' ''OS'' 10 =
     Inr [\<lparr> id_str = ''main.py'', repo_id = ''repo'', chunk_id = None, content = ''def main(): import os'',
            embedding = None, symbols = [(''functions'', [''main''])],
            imports_list = [''import os''], metadata = [(''language'', MStr ''python'')],
            similarity_score = 3 / 4, match_type = Some ''import_match'' \<rparr>]"
    by code_simp
  from search_by_imports_precision[OF h] h show ?thesis by simp
qed

text \<open>
  C10. Every result returned by \<open>search_structured_repo\<close>, and so by \<open>search_by_symbols\<close> and
  \<open>search_by_imports\<close>, has \<open>embedding = None\<close>.
\<close>

theorem search_results_carry_no_embedding:
  "(search_structured_repo senv coll q limit flt = Inr rs \<longrightarrow> (\<forall>r \<in> set rs. embedding r = None)) \<and>
   (search_by_symbols senv coll st sn limit = Inr rs1 \<longrightarrow> (\<forall>r \<in> set rs1. embedding r = None)) \<and>
   (search_by_imports senv coll pat limit = Inr rs2 \<longrightarrow> (\<forall>r \<in> set rs2. embedding r = None))"
proof (intro conjI impI)
  assume "search_structured_repo senv coll q limit flt = Inr rs"
  then show "\<forall>r \<in> set rs. embedding r = None" by (rule search_structured_repo_embedding)
next
  assume "search_by_symbols senv coll st sn limit = Inr rs1"
  then obtain base where
    b: "search_structured_repo senv coll (st @ '' '' @ sn) limit None = Inr base"
    and r: "rs1 = filter_by_symbols st sn base []"
    by (auto simp: search_by_symbols_def split: sum.splits)
  from search_structured_repo_embedding[OF b] show "\<forall>r \<in> set rs1. embedding r = None"
    unfolding r filter_by_symbols_eq by auto
next
  assume "search_by_imports senv coll pat limit = Inr rs2"
  then obtain base where
    b: "search_structured_repo senv coll (''import '' @ pat) limit None = Inr base"
    and r: "rs2 = filter_by_imports pat base []"
    by (auto simp: search_by_imports_def split: sum.splits)
  from search_structured_repo_embedding[OF b] show "\<forall>r \<in> set rs2. embedding r = None"
    unfolding r filter_by_imports_eq by auto
qed

theorem search_results_carry_no_embedding_witness:
  "search_structured_repo two_row_store ''repo'' ''main function'' 5 None =
     Inr [\<lparr> id_str = ''main.py'', repo_id = ''repo'', chunk_id = None, content = ''def main(): import os'',
            embedding = None, symbols = [(''functions'', [''main''])],
            imports_list = [''import os''], metadata = [(''language'', MStr ''python'')],
            similarity_score = 3 / 4, match_type = None \<rparr>,
          \<lparr> id_str = ''README.md'', repo_id = ''repo'', chunk_id = None, content = ''hello'',
            embedding = None, symbols = [], imports_list = [],
            metadata = [(''language'', MStr ''markdown'')],
            similarity_score = 1 / 2, match_type = None \<rparr>] \<and>
   map embedding (projr (search_structured_repo two_row_store ''repo'' ''main function'' 5 None))
     = [None, None]"
proof -
  have h: "search_structured_repo two_row_store ''repo'' ''main function'' 5 None =
     Inr [\<lparr> id_str = ''main.py'', repo_id = ''repo'', chunk_id = None, content = ''def main(): import os'',
            embedding = None, symbols = [(''functions'', [''main''])],
            imports_list = [''import os''], metadata = [(''language'', MStr ''python'')],
            similarity_score = 3 / 4, match_type = None \<rparr>,
          \<lparr> id_str = ''README.md'', repo_id = ''repo'', chunk_id = None, content = ''hello'',
            embedding = None, symbols = [], imports_list = [],
            metadata = [(''language'', MStr ''markdown'')],
            similarity_score = 1 / 2, match_type = None \<rparr>]"
    by code_simp
  from search_results_carry_no_embedding[of two_row_store "''repo''" "''main function''" 5 None _
         "''x''" "''y''" _ "''z''"] h
  show ?thesis by simp
qed

end
